theory Spec2Isabelle
  imports Complex_Main
begin

section \<open>Data of the A2C agent (tonic/torch/agents/a2c.py)\<close>

text \<open>
  Arrays and tensors are nested lists of numbers; floating-point numbers are idealised
  as reals. The conversions \<^verbatim>\<open>torch.as_tensor\<close>, \<^verbatim>\<open>.numpy()\<close> and \<^verbatim>\<open>.copy()\<close>
  change the container, not the values, and are the identity here.
\<close>

datatype tensor = is_Scalar: Scalar (scalar_value: real) | Tensor (entries: "tensor list")

text \<open>
  \<^verbatim>\<open>t.sum(axis=-1)\<close>: every innermost vector is replaced by the sum of its entries.
  A 0-dimensional tensor has \<open>-1\<close> as its only axis and is returned as it is.
\<close>

fun sum_last_axis :: "tensor \<Rightarrow> tensor" where
  "sum_last_axis (Scalar x) = Scalar x"
| "sum_last_axis (Tensor ts) =
     (if list_all is_Scalar ts then Scalar (sum_list (map scalar_value ts))
      else Tensor (map sum_last_axis ts))"

text \<open>
  A Python dict with string keys, in insertion order: the keyword arguments of a call
  (\<^verbatim>\<open>f(**batch)\<close>), a batch of named arrays, the diagnostics an updater returns.
\<close>

type_synonym kwargs = "(string \<times> tensor) list"

datatype error = AttributeError | TypeError | CollaboratorError string

datatype ('a, 's) outcome = Returned 'a 's | Raised error 's

text \<open>
  The distribution object the actor returns. \<open>sample_with_log_prob\<close> is \<open>None\<close> when
  the object has no such attribute. Sampling draws from the random generator \<open>'g\<close>
  (torch's global generator) and returns the generator's next state.
\<close>

record 'g distribution =
  sample_with_log_prob :: "('g \<Rightarrow> (tensor \<times> tensor) \<times> 'g) option"
  sample :: "'g \<Rightarrow> tensor \<times> 'g"
  log_prob :: "tensor \<Rightarrow> tensor"

text \<open>
  \<^verbatim>\<open>models.ActorCritic\<close>: the actor and critic networks and the two optional
  normalizers (\<open>None\<close> when absent; a normalizer object is truthy).
\<close>

record ('p, 'n) ActorCritic =
  actor :: 'p
  critic :: 'p
  observation_normalizer :: "'n option"
  return_normalizer :: "'n option"

text \<open>
  The attributes of an \<^verbatim>\<open>A2C\<close> object. \<^verbatim>\<open>__init__\<close> sets the first four; the three
  \<open>last_\<close> attributes do not exist (\<open>None\<close>) until \<^verbatim>\<open>step\<close> assigns them.
\<close>

record ('p, 'n, 'r, 'u) A2C =
  model :: "('p, 'n) ActorCritic"
  replay :: 'r
  actor_updater :: 'u
  critic_updater :: 'u
  last_observations :: "tensor option"
  last_actions :: "tensor option"
  last_log_probs :: "tensor option"

text \<open>
  The calls the agent makes on its collaborators and on the logger, in the order made.
  The log is ghost state: the code does not keep it; it makes the order and the number
  of calls observable.
\<close>

datatype normalizer_name = ObservationNormalizer | ReturnNormalizer

datatype event =
    ActorCall tensor
  | SampleWithLogProbCall
  | SampleCall
  | LogProbCall tensor
  | StoreCall kwargs
  | RecordCall normalizer_name tensor
  | ReadyCall
  | GetFullCall "string list"
  | CriticCall tensor
  | ComputeReturnsCall tensor tensor
  | ActorUpdaterCall kwargs
  | LoggerStoreCall string tensor
  | GetCall "string list"
  | CriticUpdaterCall kwargs
  | UpdateCall normalizer_name

text \<open>
  The state a method runs in: the object's attributes, torch's global random generator,
  and the log of calls.
\<close>

record ('p, 'n, 'r, 'u, 'g) world = "('p, 'n, 'r, 'u) A2C" +
  generator :: 'g
  calls :: "event list"

text \<open>
  The collaborators are not part of a2c.py (models, replays, updaters, normalizers): their
  behaviour is a parameter. Each operation takes the state of its object and returns the
  new state with its result. A forward pass and \<^verbatim>\<open>ready()\<close> only read.
  \<^verbatim>\<open>replay.store\<close> may raise (\<open>Some e\<close>); \<^verbatim>\<open>replay.get\<close> is a generator, given here
  by the list of batches it yields.
\<close>

record ('p, 'n, 'r, 'u, 'g) collaborators =
  model_actor :: "('p, 'n) ActorCritic \<Rightarrow> tensor \<Rightarrow> 'g distribution"
  model_critic :: "('p, 'n) ActorCritic \<Rightarrow> tensor \<Rightarrow> tensor"
  replay_store :: "'r \<Rightarrow> kwargs \<Rightarrow> error option \<times> 'r"
  replay_ready :: "'r \<Rightarrow> bool"
  replay_get_full :: "'r \<Rightarrow> string list \<Rightarrow> kwargs \<times> 'r"
  replay_compute_returns :: "'r \<Rightarrow> tensor \<Rightarrow> tensor \<Rightarrow> 'r"
  replay_get :: "'r \<Rightarrow> string list \<Rightarrow> kwargs list \<times> 'r"
  actor_updater_call :: "'u \<Rightarrow> ('p, 'n) ActorCritic \<Rightarrow> kwargs \<Rightarrow> kwargs \<times> 'u \<times> 'p"
  critic_updater_call :: "'u \<Rightarrow> ('p, 'n) ActorCritic \<Rightarrow> kwargs \<Rightarrow> kwargs \<times> 'u \<times> 'p"
  normalizer_record :: "'n \<Rightarrow> tensor \<Rightarrow> 'n"
  normalizer_update :: "'n \<Rightarrow> 'n"

section \<open>Action selection\<close>

definition A2C__step ::
  "('p, 'n, 'r, 'u, 'g) collaborators \<Rightarrow> tensor \<Rightarrow> ('p, 'n, 'r, 'u, 'g) world
    \<Rightarrow> (tensor \<times> tensor) \<times> ('p, 'n, 'r, 'u, 'g) world" where
  "A2C__step ops observations w =
     (let distributions = model_actor ops (model w) observations;
          w1 = w\<lparr>calls := calls w @ [ActorCall observations]\<rparr>
      in case sample_with_log_prob distributions of
           Some combined \<Rightarrow>
             (let ((actions, log_probs), g) = combined (generator w1)
              in ((actions, sum_last_axis log_probs),
                  w1\<lparr>generator := g, calls := calls w1 @ [SampleWithLogProbCall]\<rparr>))
         | None \<Rightarrow>
             (let (actions, g) = sample distributions (generator w1);
                  log_probs = log_prob distributions actions
              in ((actions, sum_last_axis log_probs),
                  w1\<lparr>generator := g, calls := calls w1 @ [SampleCall, LogProbCall actions]\<rparr>)))"

definition A2C_step ::
  "('p, 'n, 'r, 'u, 'g) collaborators \<Rightarrow> tensor \<Rightarrow> ('p, 'n, 'r, 'u, 'g) world
    \<Rightarrow> tensor \<times> ('p, 'n, 'r, 'u, 'g) world" where
  "A2C_step ops observations w =
     (let ((actions, log_probs), w1) = A2C__step ops observations w
      in (actions, w1\<lparr>last_observations := Some observations, last_actions := Some actions,
                    last_log_probs := Some log_probs\<rparr>))"

definition A2C__test_step ::
  "('p, 'n, 'r, 'u, 'g) collaborators \<Rightarrow> tensor \<Rightarrow> ('p, 'n, 'r, 'u, 'g) world
    \<Rightarrow> tensor \<times> ('p, 'n, 'r, 'u, 'g) world" where
  "A2C__test_step ops observations w =
     (let distributions = model_actor ops (model w) observations;
          (actions, g) = sample distributions (generator w)
      in (actions, w\<lparr>generator := g, calls := calls w @ [ActorCall observations, SampleCall]\<rparr>))"

definition A2C_test_step ::
  "('p, 'n, 'r, 'u, 'g) collaborators \<Rightarrow> tensor \<Rightarrow> ('p, 'n, 'r, 'u, 'g) world
    \<Rightarrow> tensor \<times> ('p, 'n, 'r, 'u, 'g) world" where
  "A2C_test_step ops observations w = A2C__test_step ops observations w"

section \<open>Learning\<close>

text \<open>
  \<^verbatim>\<open>self._evaluate(**batch)\<close>: the call binds the dict's entries to the parameters
  \<^verbatim>\<open>observations\<close> and \<^verbatim>\<open>next_observations\<close>; a missing or an unexpected key is a
  \<^verbatim>\<open>TypeError\<close>. Then the critic is evaluated on both.
\<close>

definition A2C__evaluate ::
  "('p, 'n, 'r, 'u, 'g) collaborators \<Rightarrow> kwargs \<Rightarrow> ('p, 'n, 'r, 'u, 'g) world
    \<Rightarrow> (tensor \<times> tensor, ('p, 'n, 'r, 'u, 'g) world) outcome" where
  "A2C__evaluate ops batch w =
     (case (map_of batch ''observations'', map_of batch ''next_observations'') of
        (Some observations, Some next_observations) \<Rightarrow>
          if list_all (\<lambda>k. k = ''observations'' \<or> k = ''next_observations'') (map fst batch)
          then (let values = model_critic ops (model w) observations;
                    next_values = model_critic ops (model w) next_observations
                in Returned (values, next_values)
                     (w\<lparr>calls := calls w @ [CriticCall observations,
                                              CriticCall next_observations]\<rparr>))
          else Raised TypeError w
      | _ \<Rightarrow> Raised TypeError w)"

text \<open>\<^verbatim>\<open>for k, v in infos.items(): logger.store(prefix + k, v.numpy())\<close>\<close>

definition logger_store :: "string \<Rightarrow> kwargs \<Rightarrow> event list" where
  "logger_store prefix infos = map (\<lambda>(k, v). LoggerStoreCall (prefix @ k) v) infos"

text \<open>The loop over the batches that \<^verbatim>\<open>self.replay.get('observations', 'returns')\<close> yields.\<close>

fun update_critic ::
  "('p, 'n, 'r, 'u, 'g) collaborators \<Rightarrow> kwargs list \<Rightarrow> ('p, 'n, 'r, 'u, 'g) world
    \<Rightarrow> ('p, 'n, 'r, 'u, 'g) world" where
  "update_critic ops [] w = w"
| "update_critic ops (batch # batches) w =
     (let (infos, u, p) = critic_updater_call ops (critic_updater w) (model w) batch
      in update_critic ops batches
           (w\<lparr>model := (model w)\<lparr>critic := p\<rparr>, critic_updater := u,
              calls := calls w @ CriticUpdaterCall batch # logger_store ''critic/'' infos\<rparr>))"

text \<open>The last four lines of \<^verbatim>\<open>_update\<close>: each normalizer, if present, is updated.\<close>

definition update_normalizers ::
  "('p, 'n, 'r, 'u, 'g) collaborators \<Rightarrow> ('p, 'n, 'r, 'u, 'g) world
    \<Rightarrow> ('p, 'n, 'r, 'u, 'g) world" where
  "update_normalizers ops w =
     (let w1 = (case observation_normalizer (model w) of
                  Some n \<Rightarrow>
                    w\<lparr>model := (model w)\<lparr>observation_normalizer :=
                                            Some (normalizer_update ops n)\<rparr>,
                      calls := calls w @ [UpdateCall ObservationNormalizer]\<rparr>
                | None \<Rightarrow> w)
      in case return_normalizer (model w1) of
           Some n \<Rightarrow>
             w1\<lparr>model := (model w1)\<lparr>return_normalizer := Some (normalizer_update ops n)\<rparr>,
                calls := calls w1 @ [UpdateCall ReturnNormalizer]\<rparr>
         | None \<Rightarrow> w1)"

definition A2C__update ::
  "('p, 'n, 'r, 'u, 'g) collaborators \<Rightarrow> ('p, 'n, 'r, 'u, 'g) world
    \<Rightarrow> (unit, ('p, 'n, 'r, 'u, 'g) world) outcome" where
  "A2C__update ops w =
     (let (batch, r1) = replay_get_full ops (replay w) [''observations'', ''next_observations''];
          w1 = w\<lparr>replay := r1,
                 calls := calls w @ [GetFullCall [''observations'', ''next_observations'']]\<rparr>
      in case A2C__evaluate ops batch w1 of
           Raised e w2 \<Rightarrow> Raised e w2
         | Returned (values, next_values) w2 \<Rightarrow>
             (let w3 = w2\<lparr>replay := replay_compute_returns ops (replay w2) values next_values,
                          calls := calls w2 @ [ComputeReturnsCall values next_values]\<rparr>;
                  keys = [''observations'', ''actions'', ''advantages'', ''log_probs''];
                  (batch, r4) = replay_get_full ops (replay w3) keys;
                  w4 = w3\<lparr>replay := r4, calls := calls w3 @ [GetFullCall keys]\<rparr>;
                  (infos, u, p) = actor_updater_call ops (actor_updater w4) (model w4) batch;
                  w5 = w4\<lparr>model := (model w4)\<lparr>actor := p\<rparr>, actor_updater := u,
                          calls := calls w4 @ ActorUpdaterCall batch
                                     # logger_store ''actor/'' infos\<rparr>;
                  (batches, r6) = replay_get ops (replay w5) [''observations'', ''returns''];
                  w6 = w5\<lparr>replay := r6,
                          calls := calls w5 @ [GetCall [''observations'', ''returns'']]\<rparr>;
                  w7 = update_critic ops batches w6
              in Returned () (update_normalizers ops w7)))"

text \<open>
  The four lines of \<^verbatim>\<open>update\<close> that prepare the normalizers: each one, if present,
  records its values.
\<close>

definition record_normalizers ::
  "('p, 'n, 'r, 'u, 'g) collaborators \<Rightarrow> tensor \<Rightarrow> tensor \<Rightarrow> ('p, 'n, 'r, 'u, 'g) world
    \<Rightarrow> ('p, 'n, 'r, 'u, 'g) world" where
  "record_normalizers ops last_obs rewards w =
     (let w1 = (case observation_normalizer (model w) of
                  Some n \<Rightarrow>
                    w\<lparr>model := (model w)\<lparr>observation_normalizer :=
                                            Some (normalizer_record ops n last_obs)\<rparr>,
                      calls := calls w @ [RecordCall ObservationNormalizer last_obs]\<rparr>
                | None \<Rightarrow> w)
      in case return_normalizer (model w1) of
           Some n \<Rightarrow>
             w1\<lparr>model := (model w1)\<lparr>return_normalizer :=
                                      Some (normalizer_record ops n rewards)\<rparr>,
                calls := calls w1 @ [RecordCall ReturnNormalizer rewards]\<rparr>
         | None \<Rightarrow> w1)"

text \<open>
  \<^verbatim>\<open>update\<close>. The arguments of \<^verbatim>\<open>self.replay.store\<close> are evaluated before the call:
  reading a \<open>last_\<close> attribute that \<^verbatim>\<open>step\<close> has not assigned raises
  \<^verbatim>\<open>AttributeError\<close>. An exception of \<^verbatim>\<open>store\<close> propagates.
\<close>

definition A2C_update ::
  "('p, 'n, 'r, 'u, 'g) collaborators \<Rightarrow> tensor \<Rightarrow> tensor \<Rightarrow> tensor \<Rightarrow> tensor
    \<Rightarrow> ('p, 'n, 'r, 'u, 'g) world \<Rightarrow> (unit, ('p, 'n, 'r, 'u, 'g) world) outcome" where
  "A2C_update ops observations rewards resets terminations w =
     (case (last_observations w, last_actions w, last_log_probs w) of
        (Some last_obs, Some last_acts, Some last_lps) \<Rightarrow>
          (let transition =
                 [(''observations'', last_obs), (''actions'', last_acts),
                  (''next_observations'', observations), (''rewards'', rewards),
                  (''resets'', resets), (''terminations'', terminations),
                  (''log_probs'', last_lps)];
               (raised, r1) = replay_store ops (replay w) transition;
               w1 = w\<lparr>replay := r1, calls := calls w @ [StoreCall transition]\<rparr>
           in case raised of
                Some e \<Rightarrow> Raised e w1
              | None \<Rightarrow>
                  (let w2 = record_normalizers ops last_obs rewards w1;
                       w3 = w2\<lparr>calls := calls w2 @ [ReadyCall]\<rparr>
                   in if replay_ready ops (replay w3) then A2C__update ops w3
                      else Returned () w3))
      | _ \<Rightarrow> Raised AttributeError w)"

section \<open>Construction\<close>

text \<open>
  What the constructor's defaults build, as far as a2c.py writes it: the classes and
  the arguments they are called with. An optimizer factory
  \<^verbatim>\<open>lambda params: torch.optim.Adam(params, lr=...)\<close> is given by its learning rate.
\<close>

datatype encoder = ObservationEncoder

datatype activation = Tanh

datatype torso = MLP "nat list" activation

datatype head = DetachedScaleGaussianPolicyHead | ValueHead

datatype network = Actor encoder torso head | Critic encoder torso head

datatype normalizer = MeanStd

record Segment =
  segment_size :: nat
  batch_iterations :: nat
  batch_size :: "nat option"
  discount_factor :: real
  trace_decay :: real

datatype optimizer = Adam (lr: real)

datatype updater =
    StochasticPolicyGradient (optimizer: optimizer)
  | VRegression (optimizer: optimizer)

definition default_model :: "(network, normalizer) ActorCritic" where
  "default_model =
     \<lparr>actor = Actor ObservationEncoder (MLP [64, 64] Tanh) DetachedScaleGaussianPolicyHead,
      critic = Critic ObservationEncoder (MLP [64, 64] Tanh) ValueHead,
      observation_normalizer = Some MeanStd,
      return_normalizer = None\<rparr>"

definition default_replay :: Segment where
  "default_replay =
     \<lparr>segment_size = 4096, batch_iterations = 80, batch_size = None,
      discount_factor = 0.98, trace_decay = 0.97\<rparr>"

definition default_actor_updater :: updater where
  "default_actor_updater = StochasticPolicyGradient (Adam 0.0003)"

definition default_critic_updater :: updater where
  "default_critic_updater = VRegression (Adam 0.001)"

text \<open>
  \<^verbatim>\<open>__init__\<close>: \<^verbatim>\<open>x or default()\<close> takes the default when the argument is \<^verbatim>\<open>None\<close>.
  No \<open>last_\<close> attribute is assigned.
\<close>

definition A2C_init ::
  "(network, normalizer) ActorCritic option \<Rightarrow> Segment option \<Rightarrow> updater option
    \<Rightarrow> updater option \<Rightarrow> (network, normalizer, Segment, updater) A2C" where
  "A2C_init model_arg replay_arg actor_updater_arg critic_updater_arg =
     \<lparr>model = (case model_arg of Some m \<Rightarrow> m | None \<Rightarrow> default_model),
      replay = (case replay_arg of Some r \<Rightarrow> r | None \<Rightarrow> default_replay),
      actor_updater =
        (case actor_updater_arg of Some u \<Rightarrow> u | None \<Rightarrow> default_actor_updater),
      critic_updater =
        (case critic_updater_arg of Some u \<Rightarrow> u | None \<Rightarrow> default_critic_updater),
      last_observations = None, last_actions = None, last_log_probs = None\<rparr>"

section \<open>The trajectory buffer's returns\<close>

text \<open>
  Modelled from the spec: \<^verbatim>\<open>replays.Segment\<close> is not among the sources, so the
  transition, the buffer and \<^verbatim>\<open>Buffer.compute_returns\<close> follow sections 3 and 4.1 of the
  specification: a reverse loop from \<open>N - 1\<close> down to \<open>0\<close> that carries the trace as one
  scalar, seeded with \<open>0\<close>, and writes \<open>advantages[t]\<close> and \<open>returns[t]\<close> in place.
\<close>

record ('o, 'a) Transition =
  observation :: 'o
  action :: 'a
  next_observation :: 'o
  reward :: real
  reset :: bool
  termination_flag :: bool
  behavior_log_probability :: real

record ('o, 'a) Buffer =
  config :: Segment
  stored :: "('o, 'a) Transition list"
  advantages :: "real list"
  returns :: "real list"

definition td_residual :: "real \<Rightarrow> ('o, 'a) Transition \<Rightarrow> real \<Rightarrow> real \<Rightarrow> real" where
  "td_residual discount x v next_v =
     reward x + discount * (1 - of_bool (termination_flag x)) * next_v - v"

fun walk_backward ::
  "real \<Rightarrow> real \<Rightarrow> ('o, 'a) Transition list \<Rightarrow> real list \<Rightarrow> real list \<Rightarrow> nat \<Rightarrow> real
    \<Rightarrow> real list \<times> real list \<Rightarrow> real list \<times> real list" where
  "walk_backward discount decay xs vs next_vs 0 trace (adv, ret) = (adv, ret)"
| "walk_backward discount decay xs vs next_vs (Suc t) trace (adv, ret) =
     (let carried = (if Suc t < length xs
                     then (1 - of_bool (reset (xs ! Suc t))) * trace else 0);
          trace_t = td_residual discount (xs ! t) (vs ! t) (next_vs ! t)
                      + discount * decay * carried
      in walk_backward discount decay xs vs next_vs t trace_t
           (adv[t := trace_t], ret[t := trace_t + vs ! t]))"

definition compute_returns ::
  "('o, 'a) Buffer \<Rightarrow> real list \<Rightarrow> real list \<Rightarrow> ('o, 'a) Buffer" where
  "compute_returns buf vs next_vs =
     (let N = length (stored buf);
          (adv, ret) = walk_backward (discount_factor (config buf)) (trace_decay (config buf))
                         (stored buf) vs next_vs N 0 (replicate N 0, replicate N 0)
      in buf\<lparr>advantages := adv, returns := ret\<rparr>)"

text \<open>A segment of three transitions: a termination at step 1, a reset at step 2.\<close>

definition example_buffer :: "(unit, unit) Buffer" where
  "example_buffer =
     \<lparr>config = \<lparr>segment_size = 3, batch_iterations = 1, batch_size = None,
                 discount_factor = 1 / 2, trace_decay = 1 / 2\<rparr>,
      stored =
        [\<lparr>observation = (), action = (), next_observation = (), reward = 1, reset = False,
          termination_flag = False, behavior_log_probability = 0\<rparr>,
         \<lparr>observation = (), action = (), next_observation = (), reward = 4, reset = False,
          termination_flag = True, behavior_log_probability = 0\<rparr>,
         \<lparr>observation = (), action = (), next_observation = (), reward = 4, reset = True,
          termination_flag = False, behavior_log_probability = 0\<rparr>],
      advantages = [], returns = []\<rparr>"

section \<open>Reading the log of calls\<close>

fun world_of :: "('a, 's) outcome \<Rightarrow> 's" where
  "world_of (Returned a w) = w"
| "world_of (Raised e w) = w"

fun is_store :: "event \<Rightarrow> bool" where
  "is_store (StoreCall kw) = True"
| "is_store e = False"

text \<open>
  The steps of a learning pass: evaluating the critic, computing the returns, the two
  updaters, and the normalizers' updates.
\<close>

fun is_learning_step :: "event \<Rightarrow> bool" where
  "is_learning_step (CriticCall t) = True"
| "is_learning_step (ComputeReturnsCall v nv) = True"
| "is_learning_step (ActorUpdaterCall b) = True"
| "is_learning_step (CriticUpdaterCall b) = True"
| "is_learning_step (UpdateCall n) = True"
| "is_learning_step e = False"


fun is_normalizer_call :: "event \<Rightarrow> bool" where
  "is_normalizer_call (RecordCall n t) = True"
| "is_normalizer_call (UpdateCall n) = True"
| "is_normalizer_call e = False"

section \<open>Stand-ins for the collaborators\<close>

text \<open>
  Small deterministic collaborators on which the methods can be evaluated: a replay of
  capacity one, networks and updaters that count their optimizer steps, normalizers that
  keep the recorded values and count their updates, and a generator that counts draws.
  The actor returns a distribution with \<open>sample_with_log_prob\<close> for the observation
  \<open>[0]\<close> and one without it for any other.
\<close>

definition standin_actor :: "(int, 'n) ActorCritic \<Rightarrow> tensor \<Rightarrow> int distribution" where
  "standin_actor m observations =
     \<lparr>sample_with_log_prob =
        (if observations = Tensor [Scalar 0]
         then Some (\<lambda>g. ((Tensor [Scalar (of_int g)], Tensor [Tensor [Scalar (-1), Scalar (-2)]]),
                         g + 1))
         else None),
      sample = (\<lambda>g. (Tensor [Scalar (of_int g)], g + 1)),
      log_prob = (\<lambda>a. Tensor [Tensor [Scalar (-3), Scalar (-4)]])\<rparr>"

definition standin_store :: "kwargs list \<Rightarrow> kwargs \<Rightarrow> error option \<times> kwargs list" where
  "standin_store r transition =
     (if length r = 1 then (Some (CollaboratorError ''full''), r) else (None, r @ [transition]))"

definition standin_get_full :: "kwargs list \<Rightarrow> string list \<Rightarrow> kwargs \<times> kwargs list" where
  "standin_get_full r keys =
     (map (\<lambda>k. (k, Tensor (map (\<lambda>row. case map_of row k of Some t \<Rightarrow> t | None \<Rightarrow> Scalar 0) r)))
        keys, r)"

definition standin_compute_returns :: "kwargs list \<Rightarrow> tensor \<Rightarrow> tensor \<Rightarrow> kwargs list" where
  "standin_compute_returns r vs next_vs =
     map (\<lambda>row. (''advantages'', next_vs) # (''returns'', vs) # row) r"

definition standin_get :: "kwargs list \<Rightarrow> string list \<Rightarrow> kwargs list \<times> kwargs list" where
  "standin_get r keys = (replicate 2 (fst (standin_get_full r keys)), [])"

definition standin ::
  "(int, tensor list \<times> int, kwargs list, int, int) collaborators" where
  "standin =
     \<lparr>model_actor = standin_actor,
      model_critic = (\<lambda>m observations. observations),
      replay_store = standin_store,
      replay_ready = (\<lambda>r. length r = 1),
      replay_get_full = standin_get_full,
      replay_compute_returns = standin_compute_returns,
      replay_get = standin_get,
      actor_updater_call = (\<lambda>u m batch. ([(''loss'', Scalar 0)], u + 1, actor m + 1)),
      critic_updater_call = (\<lambda>u m batch. ([(''loss'', Scalar 1)], u + 1, critic m + 1)),
      normalizer_record = (\<lambda>(recorded, updates) t. (recorded @ [t], updates)),
      normalizer_update = (\<lambda>(recorded, updates). ([], updates + 1))\<rparr>"

text \<open>
  An agent after \<^verbatim>\<open>__init__\<close> and \<^verbatim>\<open>initialize\<close>: an observation normalizer and no
  return normalizer (as in \<^verbatim>\<open>default_model\<close>), an empty replay, no \<open>last_\<close> attribute.
\<close>

definition standin_world ::
  "(int, tensor list \<times> int, kwargs list, int, int) world" where
  "standin_world =
     \<lparr>model = \<lparr>actor = 0, critic = 0, observation_normalizer = Some ([], 0),
               return_normalizer = None\<rparr>,
      replay = [], actor_updater = 0, critic_updater = 0,
      last_observations = None, last_actions = None, last_log_probs = None,
      generator = 0, calls = []\<rparr>"

section \<open>Lemmas on the learning pass\<close>

lemma filter_logger_store:
  "(\<And>k v. \<not> P (LoggerStoreCall k v)) \<Longrightarrow> filter P (logger_store prefix infos) = []"
  by (induction infos) (auto simp: logger_store_def)

lemma update_critic_calls:
  assumes "\<And>k v. \<not> P (LoggerStoreCall k v)"
  shows "filter P (calls (update_critic ops batches w))
           = filter P (calls w) @ filter P (map CriticUpdaterCall batches)"
  using assms
  by (induction batches arbitrary: w) (simp_all add: split_def Let_def filter_logger_store)

lemma update_critic_frame:
  "replay (update_critic ops batches w) = replay w"
  "generator (update_critic ops batches w) = generator w"
  "last_observations (update_critic ops batches w) = last_observations w"
  "last_actions (update_critic ops batches w) = last_actions w"
  "last_log_probs (update_critic ops batches w) = last_log_probs w"
  "actor_updater (update_critic ops batches w) = actor_updater w"
  "observation_normalizer (model (update_critic ops batches w)) = observation_normalizer (model w)"
  "return_normalizer (model (update_critic ops batches w)) = return_normalizer (model w)"
  "actor (model (update_critic ops batches w)) = actor (model w)"
  by (induction batches arbitrary: w; simp add: split_def Let_def)+

lemma record_normalizers_model:
  "model (record_normalizers ops last_obs rewards w) =
     (model w)\<lparr>observation_normalizer :=
                  map_option (\<lambda>n. normalizer_record ops n last_obs)
                    (observation_normalizer (model w)),
               return_normalizer :=
                  map_option (\<lambda>n. normalizer_record ops n rewards)
                    (return_normalizer (model w))\<rparr>"
  by (simp add: record_normalizers_def Let_def split: option.split)

lemma record_normalizers_calls:
  "calls (record_normalizers ops last_obs rewards w) =
     calls w
     @ (case observation_normalizer (model w) of
          Some n \<Rightarrow> [RecordCall ObservationNormalizer last_obs] | None \<Rightarrow> [])
     @ (case return_normalizer (model w) of
          Some n \<Rightarrow> [RecordCall ReturnNormalizer rewards] | None \<Rightarrow> [])"
  by (simp add: record_normalizers_def Let_def split: option.split)

lemma record_normalizers_frame:
  "replay (record_normalizers ops last_obs rewards w) = replay w"
  "generator (record_normalizers ops last_obs rewards w) = generator w"
  "last_observations (record_normalizers ops last_obs rewards w) = last_observations w"
  "last_actions (record_normalizers ops last_obs rewards w) = last_actions w"
  "last_log_probs (record_normalizers ops last_obs rewards w) = last_log_probs w"
  "actor_updater (record_normalizers ops last_obs rewards w) = actor_updater w"
  "critic_updater (record_normalizers ops last_obs rewards w) = critic_updater w"
  by (simp_all add: record_normalizers_def Let_def split: option.split)

lemma update_normalizers_calls:
  "calls (update_normalizers ops w) =
     calls w
     @ (case observation_normalizer (model w) of
          Some n \<Rightarrow> [UpdateCall ObservationNormalizer] | None \<Rightarrow> [])
     @ (case return_normalizer (model w) of
          Some n \<Rightarrow> [UpdateCall ReturnNormalizer] | None \<Rightarrow> [])"
  by (simp add: update_normalizers_def Let_def split: option.split)

lemma update_normalizers_model:
  "model (update_normalizers ops w) =
     (model w)\<lparr>observation_normalizer :=
                  map_option (normalizer_update ops) (observation_normalizer (model w)),
               return_normalizer :=
                  map_option (normalizer_update ops) (return_normalizer (model w))\<rparr>"
  by (simp add: update_normalizers_def Let_def split: option.split)

lemma update_normalizers_frame:
  "replay (update_normalizers ops w) = replay w"
  "generator (update_normalizers ops w) = generator w"
  "last_observations (update_normalizers ops w) = last_observations w"
  "last_actions (update_normalizers ops w) = last_actions w"
  "last_log_probs (update_normalizers ops w) = last_log_probs w"
  by (simp_all add: update_normalizers_def Let_def split: option.split)

lemma A2C__evaluate_requested:
  "A2C__evaluate ops [(''observations'', obs_full), (''next_observations'', next_full)] w =
     Returned (model_critic ops (model w) obs_full, model_critic ops (model w) next_full)
       (w\<lparr>calls := calls w @ [CriticCall obs_full, CriticCall next_full]\<rparr>)"
  by (simp add: A2C__evaluate_def)

lemma A2C__evaluate_cases:
  "(\<exists>vs w'. A2C__evaluate ops batch w = Returned vs w' \<and> model w' = model w
       \<and> replay w' = replay w \<and> actor_updater w' = actor_updater w
       \<and> critic_updater w' = critic_updater w
       \<and> (\<exists>a b. calls w' = calls w @ [CriticCall a, CriticCall b]))
   \<or> A2C__evaluate ops batch w = Raised TypeError w"
  by (simp add: A2C__evaluate_def Let_def split: option.split)

text \<open>Whatever the learning pass does, it emits none of the calls outside its own.\<close>

lemma A2C__update_calls_without:
  assumes "\<And>k v. \<not> P (LoggerStoreCall k v)" "\<And>ks. \<not> P (GetFullCall ks)"
    "\<And>ks. \<not> P (GetCall ks)" "\<And>t. \<not> P (CriticCall t)"
    "\<And>a b. \<not> P (ComputeReturnsCall a b)" "\<And>b. \<not> P (ActorUpdaterCall b)"
    "\<And>b. \<not> P (CriticUpdaterCall b)" "\<And>n. \<not> P (UpdateCall n)"
  shows "filter P (calls (world_of (A2C__update ops w))) = filter P (calls w)"
proof -
  let ?keys = "[''observations'', ''next_observations'']"
  let ?w1 = "w\<lparr>replay := snd (replay_get_full ops (replay w) ?keys),
               calls := calls w @ [GetFullCall ?keys]\<rparr>"
  let ?batch = "fst (replay_get_full ops (replay w) ?keys)"
  have no_critic: "filter P (map CriticUpdaterCall bs) = []" for bs
    by (induction bs) (simp_all add: assms)
  from A2C__evaluate_cases [of ops ?batch ?w1]
  show ?thesis
  proof
    assume "\<exists>vs w'. A2C__evaluate ops ?batch ?w1 = Returned vs w' \<and> model w' = model ?w1
       \<and> replay w' = replay ?w1 \<and> actor_updater w' = actor_updater ?w1
       \<and> critic_updater w' = critic_updater ?w1
       \<and> (\<exists>a b. calls w' = calls ?w1 @ [CriticCall a, CriticCall b])"
    then obtain vs w' a b where ev: "A2C__evaluate ops ?batch ?w1 = Returned vs w'"
      and cs: "calls w' = calls ?w1 @ [CriticCall a, CriticCall b]"
      by blast
    show ?thesis
      by (cases vs)
        (simp add: A2C__update_def Let_def split_def ev cs update_normalizers_calls
          update_critic_calls update_critic_frame filter_logger_store assms no_critic
          split: option.split)
  next
    assume "A2C__evaluate ops ?batch ?w1 = Raised TypeError ?w1"
    then show ?thesis
      by (simp add: A2C__update_def Let_def split_def assms)
  qed
qed

text \<open>
  When the replay returns the two requested arrays, the learning pass returns, and its
  calls other than those on the logger are the listed ones.
\<close>

lemma A2C__update_calls:
  assumes full: "replay_get_full ops (replay w) [''observations'', ''next_observations'']
                   = ([(''observations'', obs_full), (''next_observations'', next_full)], r2)"
    and vals: "vs = model_critic ops (model w) obs_full"
              "next_vs = model_critic ops (model w) next_full"
    and seg: "replay_get_full ops (replay_compute_returns ops r2 vs next_vs)
                [''observations'', ''actions'', ''advantages'', ''log_probs''] = (segment, r4)"
    and bat: "replay_get ops r4 [''observations'', ''returns''] = (batches, r6)"
    and P: "\<And>k v. \<not> P (LoggerStoreCall k v)"
  shows "\<exists>w'. A2C__update ops w = Returned () w' \<and>
           filter P (calls w') =
             filter P (calls w) @
             filter P ([GetFullCall [''observations'', ''next_observations''],
                CriticCall obs_full, CriticCall next_full, ComputeReturnsCall vs next_vs,
                GetFullCall [''observations'', ''actions'', ''advantages'', ''log_probs''],
                ActorUpdaterCall segment, GetCall [''observations'', ''returns'']]
             @ map CriticUpdaterCall batches
             @ (case observation_normalizer (model w) of
                  Some n \<Rightarrow> [UpdateCall ObservationNormalizer] | None \<Rightarrow> [])
             @ (case return_normalizer (model w) of
                  Some n \<Rightarrow> [UpdateCall ReturnNormalizer] | None \<Rightarrow> [])) \<and>
           replay w' = r6 \<and>
           observation_normalizer (model w') =
             map_option (normalizer_update ops) (observation_normalizer (model w)) \<and>
           return_normalizer (model w') =
             map_option (normalizer_update ops) (return_normalizer (model w))"
  using full seg bat
  by (simp add: A2C__update_def A2C__evaluate_requested Let_def split_def
        vals [symmetric] update_normalizers_calls update_normalizers_model
        update_critic_calls P update_critic_frame filter_logger_store
        update_normalizers_frame
      split: option.split)

section \<open>Lemmas on step and update\<close>

lemma A2C_step_unfold:
  "A2C_step ops observations w =
     (fst (fst (A2C__step ops observations w)),
      (snd (A2C__step ops observations w))
        \<lparr>last_observations := Some observations,
         last_actions := Some (fst (fst (A2C__step ops observations w))),
         last_log_probs := Some (snd (fst (A2C__step ops observations w)))\<rparr>)"
  by (simp add: A2C_step_def split_def Let_def)

lemma A2C__step_calls:
  "calls (snd (A2C__step ops observations w)) =
     calls w @ ActorCall observations #
       (case sample_with_log_prob (model_actor ops (model w) observations) of
          Some combined \<Rightarrow> [SampleWithLogProbCall]
        | None \<Rightarrow> [SampleCall,
                    LogProbCall (fst (sample (model_actor ops (model w) observations)
                                        (generator w)))])"
  by (simp add: A2C__step_def Let_def split_def split: option.split)

lemma A2C__step_frame:
  "model (snd (A2C__step ops observations w)) = model w"
  "replay (snd (A2C__step ops observations w)) = replay w"
  "actor_updater (snd (A2C__step ops observations w)) = actor_updater w"
  "critic_updater (snd (A2C__step ops observations w)) = critic_updater w"
  by (simp_all add: A2C__step_def Let_def split_def split: option.split)

lemma A2C__step_log_probs:
  "snd (fst (A2C__step ops observations w)) =
     sum_last_axis
       (case sample_with_log_prob (model_actor ops (model w) observations) of
          Some combined \<Rightarrow> snd (fst (combined (generator w)))
        | None \<Rightarrow> log_prob (model_actor ops (model w) observations)
                    (fst (sample (model_actor ops (model w) observations) (generator w))))"
  by (simp add: A2C__step_def Let_def split_def split: option.split)

text \<open>With the three cached values present, update makes exactly one call of store.\<close>

lemma A2C_update_stores_once:
  assumes "last_observations w = Some last_obs" "last_actions w = Some last_acts"
    "last_log_probs w = Some last_lps"
  shows "filter is_store (calls (world_of
             (A2C_update ops observations rewards resets terminations w))) =
           filter is_store (calls w) @
           [StoreCall [(''observations'', last_obs), (''actions'', last_acts),
              (''next_observations'', observations), (''rewards'', rewards),
              (''resets'', resets), (''terminations'', terminations),
              (''log_probs'', last_lps)]]"
  using assms
  by (simp add: A2C_update_def Let_def split_def A2C__update_calls_without
        record_normalizers_calls split: option.split)

lemma A2C_update_calls:
  assumes cached: "last_observations w = Some last_obs" "last_actions w = Some last_acts"
      "last_log_probs w = Some last_lps"
    and stored: "replay_store ops (replay w)
        [(''observations'', last_obs), (''actions'', last_acts),
         (''next_observations'', observations), (''rewards'', rewards),
         (''resets'', resets), (''terminations'', terminations),
         (''log_probs'', last_lps)] = (None, r1)"
    and recorded: "m1 = (model w)\<lparr>observation_normalizer :=
                  map_option (\<lambda>n. normalizer_record ops n last_obs)
                    (observation_normalizer (model w)),
               return_normalizer :=
                  map_option (\<lambda>n. normalizer_record ops n rewards)
                    (return_normalizer (model w))\<rparr>"
    and full: "replay_get_full ops r1 [''observations'', ''next_observations'']
                   = ([(''observations'', obs_full), (''next_observations'', next_full)], r2)"
    and vals: "vs = model_critic ops m1 obs_full" "next_vs = model_critic ops m1 next_full"
    and seg: "replay_get_full ops (replay_compute_returns ops r2 vs next_vs)
                [''observations'', ''actions'', ''advantages'', ''log_probs''] = (segment, r4)"
    and bat: "replay_get ops r4 [''observations'', ''returns''] = (batches, r6)"
    and P: "\<And>k v. \<not> P (LoggerStoreCall k v)"
  shows "\<exists>w'. A2C_update ops observations rewards resets terminations w = Returned () w' \<and>
           filter P (calls w') =
             filter P (calls w) @
             filter P ([StoreCall [(''observations'', last_obs), (''actions'', last_acts),
                 (''next_observations'', observations), (''rewards'', rewards),
                 (''resets'', resets), (''terminations'', terminations),
                 (''log_probs'', last_lps)]]
               @ (case observation_normalizer (model w) of
                    Some n \<Rightarrow> [RecordCall ObservationNormalizer last_obs] | None \<Rightarrow> [])
               @ (case return_normalizer (model w) of
                    Some n \<Rightarrow> [RecordCall ReturnNormalizer rewards] | None \<Rightarrow> [])
               @ [ReadyCall]
               @ (if replay_ready ops r1
                  then [GetFullCall [''observations'', ''next_observations''],
                        CriticCall obs_full, CriticCall next_full,
                        ComputeReturnsCall vs next_vs,
                        GetFullCall [''observations'', ''actions'', ''advantages'',
                                     ''log_probs''],
                        ActorUpdaterCall segment, GetCall [''observations'', ''returns'']]
                       @ map CriticUpdaterCall batches
                       @ (case observation_normalizer (model w) of
                            Some n \<Rightarrow> [UpdateCall ObservationNormalizer] | None \<Rightarrow> [])
                       @ (case return_normalizer (model w) of
                            Some n \<Rightarrow> [UpdateCall ReturnNormalizer] | None \<Rightarrow> [])
                  else [])) \<and>
           replay w' = (if replay_ready ops r1 then r6 else r1) \<and>
           observation_normalizer (model w') =
             map_option (\<lambda>n. if replay_ready ops r1
                              then normalizer_update ops (normalizer_record ops n last_obs)
                              else normalizer_record ops n last_obs)
               (observation_normalizer (model w)) \<and>
           return_normalizer (model w') =
             map_option (\<lambda>n. if replay_ready ops r1
                              then normalizer_update ops (normalizer_record ops n rewards)
                              else normalizer_record ops n rewards)
               (return_normalizer (model w))"
proof -
  let ?transition = "[(''observations'', last_obs), (''actions'', last_acts),
         (''next_observations'', observations), (''rewards'', rewards),
         (''resets'', resets), (''terminations'', terminations),
         (''log_probs'', last_lps)]"
  let ?w1 = "w\<lparr>replay := r1, calls := calls w @ [StoreCall ?transition]\<rparr>"
  let ?w2 = "record_normalizers ops last_obs rewards ?w1"
  let ?w3 = "?w2\<lparr>calls := calls ?w2 @ [ReadyCall]\<rparr>"
  have upd: "A2C_update ops observations rewards resets terminations w =
               (if replay_ready ops r1 then A2C__update ops ?w3 else Returned () ?w3)"
    using cached stored
    by (simp add: A2C_update_def Let_def record_normalizers_frame)
  have m3: "model ?w3 = m1"
    by (simp add: record_normalizers_model recorded)
  have r3: "replay ?w3 = r1"
    by (simp add: record_normalizers_frame)
  have c3: "calls ?w3 = calls w @ [StoreCall ?transition]
               @ (case observation_normalizer (model w) of
                    Some n \<Rightarrow> [RecordCall ObservationNormalizer last_obs] | None \<Rightarrow> [])
               @ (case return_normalizer (model w) of
                    Some n \<Rightarrow> [RecordCall ReturnNormalizer rewards] | None \<Rightarrow> [])
               @ [ReadyCall]"
    by (simp add: record_normalizers_calls)
  show ?thesis
  proof (cases "replay_ready ops r1")
    case False
    then show ?thesis
      unfolding upd
      by (simp add: c3 r3 m3 [unfolded recorded] record_normalizers_model record_normalizers_frame)
  next
    case True
    from A2C__update_calls [of ops ?w3 obs_full next_full r2 vs next_vs segment r4 batches r6 P]
      full vals seg bat P
    obtain w' where w': "A2C__update ops ?w3 = Returned () w'"
      and cs: "filter P (calls w') =
             filter P (calls ?w3) @
             filter P ([GetFullCall [''observations'', ''next_observations''],
                CriticCall obs_full, CriticCall next_full, ComputeReturnsCall vs next_vs,
                GetFullCall [''observations'', ''actions'', ''advantages'', ''log_probs''],
                ActorUpdaterCall segment, GetCall [''observations'', ''returns'']]
             @ map CriticUpdaterCall batches
             @ (case observation_normalizer (model ?w3) of
                  Some n \<Rightarrow> [UpdateCall ObservationNormalizer] | None \<Rightarrow> [])
             @ (case return_normalizer (model ?w3) of
                  Some n \<Rightarrow> [UpdateCall ReturnNormalizer] | None \<Rightarrow> []))"
      and rest: "replay w' = r6"
        "observation_normalizer (model w') =
             map_option (normalizer_update ops) (observation_normalizer (model ?w3))"
        "return_normalizer (model w') =
             map_option (normalizer_update ops) (return_normalizer (model ?w3))"
      unfolding m3 r3 by blast
    have present: "(case observation_normalizer m1 of Some n \<Rightarrow> a | None \<Rightarrow> b)
                = (case observation_normalizer (model w) of Some n \<Rightarrow> a | None \<Rightarrow> b)"
       "(case return_normalizer m1 of Some n \<Rightarrow> a | None \<Rightarrow> b)
                = (case return_normalizer (model w) of Some n \<Rightarrow> a | None \<Rightarrow> b)" for a b :: "event list"
      by (simp_all add: recorded split: option.split)
    show ?thesis
      unfolding upd using True w' rest [unfolded m3]
      by (simp add: cs [unfolded m3 present] c3 recorded option.map_comp comp_def)
  qed
qed

lemma filter_critic_updater_calls:
  "(\<And>b. P (CriticUpdaterCall b)) \<Longrightarrow>
     filter P (map CriticUpdaterCall batches) = map CriticUpdaterCall batches"
  by (induction batches) simp_all

section \<open>Lemmas on the returns\<close>

lemma walk_backward_invariant:
  assumes "k \<le> length xs" and "length adv = length xs" and "length ret = length xs"
    and "trace = (if k < length xs then adv ! k else 0)"
    and "\<And>t. k \<le> t \<Longrightarrow> t < length xs \<Longrightarrow>
           adv ! t = td_residual discount (xs ! t) (vs ! t) (next_vs ! t)
                       + discount * decay *
                         (if Suc t < length xs
                          then (1 - of_bool (reset (xs ! Suc t))) * adv ! Suc t else 0)
           \<and> ret ! t = adv ! t + vs ! t"
    and "walk_backward discount decay xs vs next_vs k trace (adv, ret) = (adv', ret')"
  shows "length adv' = length xs \<and> length ret' = length xs \<and>
         (\<forall>t<length xs.
            adv' ! t = td_residual discount (xs ! t) (vs ! t) (next_vs ! t)
                       + discount * decay *
                         (if Suc t < length xs
                          then (1 - of_bool (reset (xs ! Suc t))) * adv' ! Suc t else 0)
            \<and> ret' ! t = adv' ! t + vs ! t)"
  using assms
proof (induction k arbitrary: trace adv ret)
  case 0
  then show ?case by simp
next
  case (Suc k)
  let ?carried = "if Suc k < length xs
                  then (1 - of_bool (reset (xs ! Suc k))) * trace else 0"
  let ?trace = "td_residual discount (xs ! k) (vs ! k) (next_vs ! k)
                  + discount * decay * ?carried"
  let ?adv = "adv[k := ?trace]"
  let ?ret = "ret[k := ?trace + vs ! k]"
  have k: "k < length xs"
    using Suc.prems(1) by simp
  have run: "walk_backward discount decay xs vs next_vs k ?trace (?adv, ?ret) = (adv', ret')"
    using Suc.prems(6) by (simp add: Let_def)
  have at_k: "?adv ! k = ?trace" "?ret ! k = ?trace + vs ! k"
    using k Suc.prems(2,3) by simp_all
  have above: "?adv ! t = adv ! t" "?ret ! t = ret ! t" if "Suc k \<le> t" for t
    using that by simp_all
  have inv: "?adv ! t = td_residual discount (xs ! t) (vs ! t) (next_vs ! t)
                       + discount * decay *
                         (if Suc t < length xs
                          then (1 - of_bool (reset (xs ! Suc t))) * ?adv ! Suc t else 0)
           \<and> ?ret ! t = ?adv ! t + vs ! t" if "k \<le> t" "t < length xs" for t
  proof (cases "t = k")
    case True
    show ?thesis
      unfolding True at_k using Suc.prems(4) above(1) [of "Suc k"] by simp
  next
    case False
    with that have "Suc k \<le> t" by simp
    then show ?thesis
      using Suc.prems(5) [of t] that(2) above [of t] above(1) [of "Suc t"] by simp
  qed
  show ?case
  proof (rule Suc.IH [OF _ _ _ _ _ run])
    show "k \<le> length xs" using k by simp
    show "length ?adv = length xs" using Suc.prems(2) by simp
    show "length ?ret = length xs" using Suc.prems(3) by simp
    show "?trace = (if k < length xs then ?adv ! k else 0)" using k at_k by simp
    show "\<And>t. k \<le> t \<Longrightarrow> t < length xs \<Longrightarrow>
           ?adv ! t = td_residual discount (xs ! t) (vs ! t) (next_vs ! t)
                       + discount * decay *
                         (if Suc t < length xs
                          then (1 - of_bool (reset (xs ! Suc t))) * ?adv ! Suc t else 0)
           \<and> ?ret ! t = ?adv ! t + vs ! t"
      using inv by blast
  qed
qed

lemma example_buffer_returns:
  "compute_returns example_buffer [1, 2, 3] [2, 8, 4] =
     example_buffer\<lparr>advantages := [3 / 2, 2, 3], returns := [5 / 2, 4, 6]\<rparr>"
  by (simp add: compute_returns_def example_buffer_def td_residual_def numeral_3_eq_3)

section \<open>The stand-ins, evaluated\<close>

lemmas standin_simps = standin_def standin_actor_def standin_store_def standin_get_full_def
  standin_compute_returns_def standin_get_def standin_world_def

lemma standin_first_step:
  "A2C_step standin (Tensor [Scalar 0]) standin_world =
     (Tensor [Scalar 0],
      standin_world\<lparr>last_observations := Some (Tensor [Scalar 0]),
                     last_actions := Some (Tensor [Scalar 0]),
                     last_log_probs := Some (Tensor [Scalar (- 3)]),
                     generator := 1,
                     calls := [ActorCall (Tensor [Scalar 0]), SampleWithLogProbCall]\<rparr>)"
  by (simp add: A2C_step_def A2C__step_def standin_simps Let_def)

lemma standin_second_step:
  "A2C_step standin (Tensor [Scalar 1])
      (standin_world\<lparr>last_observations := Some (Tensor [Scalar 0]),
                     last_actions := Some (Tensor [Scalar 0]),
                     last_log_probs := Some (Tensor [Scalar (- 3)]),
                     generator := 1,
                     calls := [ActorCall (Tensor [Scalar 0]), SampleWithLogProbCall]\<rparr>) =
     (Tensor [Scalar 1],
      standin_world\<lparr>last_observations := Some (Tensor [Scalar 1]),
                     last_actions := Some (Tensor [Scalar 1]),
                     last_log_probs := Some (Tensor [Scalar (- 7)]),
                     generator := 2,
                     calls := [ActorCall (Tensor [Scalar 0]), SampleWithLogProbCall,
                               ActorCall (Tensor [Scalar 1]), SampleCall,
                               LogProbCall (Tensor [Scalar 1])]\<rparr>)"
  by (simp add: A2C_step_def A2C__step_def standin_simps Let_def)


lemma standin_learning_pass:
  defines "w \<equiv> standin_world\<lparr>last_observations := Some (Tensor [Scalar 0]),
                     last_actions := Some (Tensor [Scalar 0]),
                     last_log_probs := Some (Tensor [Scalar (- 3)]),
                     generator := 1,
                     calls := [ActorCall (Tensor [Scalar 0]), SampleWithLogProbCall]\<rparr>"
    and "transition \<equiv> [(''observations'', Tensor [Scalar 0]), (''actions'', Tensor [Scalar 0]),
         (''next_observations'', Tensor [Scalar 5]), (''rewards'', Tensor [Scalar 7]),
         (''resets'', Tensor [Scalar 0]), (''terminations'', Tensor [Scalar 0]),
         (''log_probs'', Tensor [Scalar (- 3)])]"
  shows "last_observations w = Some (Tensor [Scalar 0])"
    and "last_actions w = Some (Tensor [Scalar 0])"
    and "last_log_probs w = Some (Tensor [Scalar (- 3)])"
    and "replay_store standin (replay w) transition = (None, [transition])"
    and "replay_get_full standin [transition] [''observations'', ''next_observations'']
           = ([(''observations'', Tensor [Tensor [Scalar 0]]),
               (''next_observations'', Tensor [Tensor [Scalar 5]])], [transition])"
    and "replay_get_full standin
           (replay_compute_returns standin [transition] (Tensor [Tensor [Scalar 0]])
              (Tensor [Tensor [Scalar 5]]))
           [''observations'', ''actions'', ''advantages'', ''log_probs'']
         = ([(''observations'', Tensor [Tensor [Scalar 0]]),
             (''actions'', Tensor [Tensor [Scalar 0]]),
             (''advantages'', Tensor [Tensor [Tensor [Scalar 5]]]),
             (''log_probs'', Tensor [Tensor [Scalar (- 3)]])],
            [(''advantages'', Tensor [Tensor [Scalar 5]])
             # (''returns'', Tensor [Tensor [Scalar 0]]) # transition])"
    and "replay_get standin
           [(''advantages'', Tensor [Tensor [Scalar 5]])
             # (''returns'', Tensor [Tensor [Scalar 0]]) # transition]
           [''observations'', ''returns'']
         = ([[(''observations'', Tensor [Tensor [Scalar 0]]),
              (''returns'', Tensor [Tensor [Tensor [Scalar 0]]])],
             [(''observations'', Tensor [Tensor [Scalar 0]]),
              (''returns'', Tensor [Tensor [Tensor [Scalar 0]]])]], [])"
    and "replay_ready standin [transition]"
    and "model_critic standin m t = t"
    and "observation_normalizer (model standin_world) = Some ([], 0)"
    and "return_normalizer (model standin_world) = None"
    and "normalizer_record standin ([], 0) t = ([t], 0)"
    and "normalizer_update standin (recorded, 0) = ([], 1)"
  unfolding w_def transition_def
  by (simp_all add: standin_simps numeral_2_eq_2)

section \<open>The claims\<close>



text \<open>
  Claim C2. Given values and next-values for the \<open>N\<close> stored transitions, the arrays
  that \<^verbatim>\<open>compute_returns\<close> leaves have length \<open>N\<close>, and at every \<open>t < N\<close>:
  \<open>advantages[t] = \<delta>\<^sub>t + \<gamma> \<lambda> (1 - reset\<^sub>t\<^sub>+\<^sub>1) advantages[t+1]\<close> with
  \<open>\<delta>\<^sub>t = reward\<^sub>t + \<gamma> (1 - termination\<^sub>t) next_value\<^sub>t - value\<^sub>t\<close>, where the trace beyond
  the last step is \<open>0\<close>, and \<open>returns[t] = advantages[t] + value\<^sub>t\<close>. A termination at
  \<open>t\<close> removes the next value from \<open>\<delta>\<^sub>t\<close>; a reset at \<open>t + 1\<close> removes the later
  trace and leaves \<open>\<delta>\<^sub>t\<close> as it is.
\<close>

theorem compute_returns_recurrence:
  assumes "length vs = length (stored buf)" and "length next_vs = length (stored buf)"
    and "t < length (stored buf)"
  shows "length (advantages (compute_returns buf vs next_vs)) = length (stored buf) \<and>
         length (returns (compute_returns buf vs next_vs)) = length (stored buf) \<and>
         advantages (compute_returns buf vs next_vs) ! t =
           (reward (stored buf ! t)
              + discount_factor (config buf) * (1 - of_bool (termination_flag (stored buf ! t)))
                  * next_vs ! t
              - vs ! t)
           + discount_factor (config buf) * trace_decay (config buf) *
               (if Suc t < length (stored buf)
                then (1 - of_bool (reset (stored buf ! Suc t)))
                       * advantages (compute_returns buf vs next_vs) ! Suc t
                else 0) \<and>
         returns (compute_returns buf vs next_vs) ! t =
           advantages (compute_returns buf vs next_vs) ! t + vs ! t \<and>
         (termination_flag (stored buf ! t) \<longrightarrow>
            advantages (compute_returns buf vs next_vs) ! t =
              (reward (stored buf ! t) - vs ! t)
              + discount_factor (config buf) * trace_decay (config buf) *
                  (if Suc t < length (stored buf)
                   then (1 - of_bool (reset (stored buf ! Suc t)))
                          * advantages (compute_returns buf vs next_vs) ! Suc t
                   else 0)) \<and>
         (Suc t < length (stored buf) \<and> reset (stored buf ! Suc t) \<longrightarrow>
            advantages (compute_returns buf vs next_vs) ! t =
              reward (stored buf ! t)
              + discount_factor (config buf) * (1 - of_bool (termination_flag (stored buf ! t)))
                  * next_vs ! t
              - vs ! t)"
proof -
  let ?N = "length (stored buf)"
  obtain adv ret where run:
    "walk_backward (discount_factor (config buf)) (trace_decay (config buf)) (stored buf)
       vs next_vs ?N 0 (replicate ?N 0, replicate ?N 0) = (adv, ret)"
    by (cases "walk_backward (discount_factor (config buf)) (trace_decay (config buf))
                 (stored buf) vs next_vs ?N 0 (replicate ?N 0, replicate ?N 0)")
  have res: "advantages (compute_returns buf vs next_vs) = adv"
    "returns (compute_returns buf vs next_vs) = ret"
    by (simp_all add: compute_returns_def Let_def run)
  have "length adv = ?N \<and> length ret = ?N \<and>
         (\<forall>t<?N.
            adv ! t = td_residual (discount_factor (config buf)) (stored buf ! t) (vs ! t)
                        (next_vs ! t)
                       + discount_factor (config buf) * trace_decay (config buf) *
                         (if Suc t < ?N
                          then (1 - of_bool (reset (stored buf ! Suc t))) * adv ! Suc t else 0)
            \<and> ret ! t = adv ! t + vs ! t)"
    by (rule walk_backward_invariant [OF _ _ _ _ _ run]) simp_all
  with assms(3) show ?thesis
    unfolding res by (simp add: td_residual_def)
qed

theorem compute_returns_recurrence_witness:
  "length [1, 2, 3 :: real] = length (stored example_buffer) \<and>
   length [2, 8, 4 :: real] = length (stored example_buffer) \<and>
   (0 :: nat) < length (stored example_buffer) \<and>
   advantages (compute_returns example_buffer [1, 2, 3] [2, 8, 4]) = [3 / 2, 2, 3] \<and>
   returns (compute_returns example_buffer [1, 2, 3] [2, 8, 4]) = [5 / 2, 4, 6] \<and>
   advantages (compute_returns example_buffer [1, 2, 3] [2, 8, 4]) ! 0 =
     (1 + 1 / 2 * 2 - 1)
     + 1 / 2 * (1 / 2) * advantages (compute_returns example_buffer [1, 2, 3] [2, 8, 4]) ! 1"
proof -
  have lens: "length [1, 2, 3 :: real] = length (stored example_buffer)"
    "length [2, 8, 4 :: real] = length (stored example_buffer)"
    "(0 :: nat) < length (stored example_buffer)"
    by (simp_all add: example_buffer_def)
  from compute_returns_recurrence [OF lens]
  have "advantages (compute_returns example_buffer [1, 2, 3] [2, 8, 4]) ! 0 =
     (1 + 1 / 2 * 2 - 1)
     + 1 / 2 * (1 / 2) * advantages (compute_returns example_buffer [1, 2, 3] [2, 8, 4]) ! 1"
    by (simp add: example_buffer_def)
  then show ?thesis
    using lens by (simp add: example_buffer_returns)
qed



text \<open>
  Claim C4, as stated, fails: one agent, constructed once, calls
  \<open>sample_with_log_prob\<close> in its first step and \<open>sample\<close> with \<open>log_prob\<close> in its
  second, because the two distributions its actor returned differ.
\<close>

theorem step_choice_fixed_at_construction_counterexample:
  "calls (snd (A2C_step standin (Tensor [Scalar 0]) standin_world)) =
     [ActorCall (Tensor [Scalar 0]), SampleWithLogProbCall] \<and>
   calls (snd (A2C_step standin (Tensor [Scalar 1])
                 (snd (A2C_step standin (Tensor [Scalar 0]) standin_world)))) =
     [ActorCall (Tensor [Scalar 0]), SampleWithLogProbCall,
      ActorCall (Tensor [Scalar 1]), SampleCall, LogProbCall (Tensor [Scalar 1])]"
  by (simp add: standin_first_step standin_second_step)

text \<open>
  Claim C4, amended. On every step the choice is made anew from the distribution that
  the actor returned for this call: \<open>sample_with_log_prob\<close> is called when the
  distribution has it, otherwise \<open>sample\<close> and then \<open>log_prob\<close>. A step records no
  choice: the model, the replay and the updaters are as before.
\<close>

theorem step_chooses_by_the_distribution_of_the_call:
  "calls (snd (A2C_step ops observations w)) =
     calls w @ ActorCall observations #
       (case sample_with_log_prob (model_actor ops (model w) observations) of
          Some combined \<Rightarrow> [SampleWithLogProbCall]
        | None \<Rightarrow> [SampleCall,
                    LogProbCall (fst (sample (model_actor ops (model w) observations)
                                        (generator w)))])
   \<and> model (snd (A2C_step ops observations w)) = model w
   \<and> replay (snd (A2C_step ops observations w)) = replay w
   \<and> actor_updater (snd (A2C_step ops observations w)) = actor_updater w
   \<and> critic_updater (snd (A2C_step ops observations w)) = critic_updater w"
  by (simp add: A2C_step_unfold A2C__step_calls A2C__step_frame)

theorem step_chooses_by_the_distribution_of_the_call_witness:
  "calls (snd (A2C_step standin (Tensor [Scalar 1]) standin_world)) =
     [ActorCall (Tensor [Scalar 1]), SampleCall, LogProbCall (Tensor [Scalar 0])]"
  using step_chooses_by_the_distribution_of_the_call
          [of standin "Tensor [Scalar 1]" standin_world]
  by (simp add: standin_simps)

text \<open>
  Claim C5. On either path, the log-probabilities that a step caches are the
  distribution's output summed over the last axis, and the next update stores this
  cached value under \<open>log_probs\<close>.
\<close>

theorem step_sums_log_probs_over_last_axis:
  "last_log_probs (snd (A2C_step ops observations w)) =
     Some (sum_last_axis
       (case sample_with_log_prob (model_actor ops (model w) observations) of
          Some combined \<Rightarrow> snd (fst (combined (generator w)))
        | None \<Rightarrow> log_prob (model_actor ops (model w) observations)
                    (fst (sample (model_actor ops (model w) observations) (generator w)))))
   \<and> (\<exists>transition.
        filter is_store (calls (world_of
           (A2C_update ops next_observations rewards resets terminations
              (snd (A2C_step ops observations w))))) =
        filter is_store (calls (snd (A2C_step ops observations w))) @ [StoreCall transition] \<and>
        map_of transition ''log_probs'' =
          last_log_probs (snd (A2C_step ops observations w)))"
proof -
  let ?w1 = "snd (A2C_step ops observations w)"
  have w1: "last_observations ?w1 = Some observations"
    "last_actions ?w1 = Some (fst (fst (A2C__step ops observations w)))"
    "last_log_probs ?w1 = Some (snd (fst (A2C__step ops observations w)))"
    by (simp_all add: A2C_step_unfold)
  show ?thesis
    using A2C_update_stores_once [OF w1, of ops next_observations rewards resets terminations]
    by (simp add: w1 A2C__step_log_probs)
qed

theorem step_sums_log_probs_over_last_axis_witness:
  "last_log_probs (snd (A2C_step standin (Tensor [Scalar 1]) standin_world)) =
     Some (sum_last_axis (Tensor [Tensor [Scalar (- 3), Scalar (- 4)]])) \<and>
   sum_last_axis (Tensor [Tensor [Scalar (- 3), Scalar (- 4)]]) = Tensor [Scalar (- 7)]"
  using step_sums_log_probs_over_last_axis [of standin "Tensor [Scalar 1]" standin_world]
  by (simp add: standin_simps)

text \<open>
  Claim C6. In an update that stores normally, an absent normalizer is skipped: it stays
  absent, no call is made on it, and update returns. A present observation normalizer
  records the cached (pre-step) observations and a present return normalizer the rewards,
  both before every step of the learning pass; at the end of the pass each present
  normalizer is updated. (The replay is assumed to return the two arrays it is asked
  for.)
\<close>

theorem normalizers_are_optional:
  assumes "last_observations w = Some last_obs" and "last_actions w = Some last_acts"
    and "last_log_probs w = Some last_lps"
    and "replay_store ops (replay w)
        [(''observations'', last_obs), (''actions'', last_acts),
         (''next_observations'', observations), (''rewards'', rewards),
         (''resets'', resets), (''terminations'', terminations),
         (''log_probs'', last_lps)] = (None, r1)"
    and "m1 = (model w)\<lparr>observation_normalizer :=
                  map_option (\<lambda>n. normalizer_record ops n last_obs)
                    (observation_normalizer (model w)),
               return_normalizer :=
                  map_option (\<lambda>n. normalizer_record ops n rewards)
                    (return_normalizer (model w))\<rparr>"
    and "replay_get_full ops r1 [''observations'', ''next_observations'']
           = ([(''observations'', obs_full), (''next_observations'', next_full)], r2)"
    and "vs = model_critic ops m1 obs_full" and "next_vs = model_critic ops m1 next_full"
    and "replay_get_full ops (replay_compute_returns ops r2 vs next_vs)
           [''observations'', ''actions'', ''advantages'', ''log_probs''] = (segment, r4)"
    and "replay_get ops r4 [''observations'', ''returns''] = (batches, r6)"
  shows "\<exists>w'. A2C_update ops observations rewards resets terminations w = Returned () w' \<and>
           observation_normalizer (model w') =
             map_option (\<lambda>n. if replay_ready ops r1
                              then normalizer_update ops (normalizer_record ops n last_obs)
                              else normalizer_record ops n last_obs)
               (observation_normalizer (model w)) \<and>
           return_normalizer (model w') =
             map_option (\<lambda>n. if replay_ready ops r1
                              then normalizer_update ops (normalizer_record ops n rewards)
                              else normalizer_record ops n rewards)
               (return_normalizer (model w)) \<and>
           filter (\<lambda>e. is_normalizer_call e \<or> is_learning_step e) (calls w') =
             filter (\<lambda>e. is_normalizer_call e \<or> is_learning_step e) (calls w)
             @ (case observation_normalizer (model w) of
                  Some n \<Rightarrow> [RecordCall ObservationNormalizer last_obs] | None \<Rightarrow> [])
             @ (case return_normalizer (model w) of
                  Some n \<Rightarrow> [RecordCall ReturnNormalizer rewards] | None \<Rightarrow> [])
             @ (if replay_ready ops r1
                then [CriticCall obs_full, CriticCall next_full,
                      ComputeReturnsCall vs next_vs, ActorUpdaterCall segment]
                     @ map CriticUpdaterCall batches
                     @ (case observation_normalizer (model w) of
                          Some n \<Rightarrow> [UpdateCall ObservationNormalizer] | None \<Rightarrow> [])
                     @ (case return_normalizer (model w) of
                          Some n \<Rightarrow> [UpdateCall ReturnNormalizer] | None \<Rightarrow> [])
                else [])"
proof -
  let ?P = "\<lambda>e. is_normalizer_call e \<or> is_learning_step e"
  have P: "\<not> ?P (LoggerStoreCall k v)" for k v
    by simp
  from A2C_update_calls [where P = ?P, OF assms P]
  obtain w' where "A2C_update ops observations rewards resets terminations w = Returned () w'"
    and "observation_normalizer (model w') =
             map_option (\<lambda>n. if replay_ready ops r1
                              then normalizer_update ops (normalizer_record ops n last_obs)
                              else normalizer_record ops n last_obs)
               (observation_normalizer (model w))"
    and "return_normalizer (model w') =
             map_option (\<lambda>n. if replay_ready ops r1
                              then normalizer_update ops (normalizer_record ops n rewards)
                              else normalizer_record ops n rewards)
               (return_normalizer (model w))"
    and "filter ?P (calls w') =
             filter ?P (calls w) @
             filter ?P
              ([StoreCall [(''observations'', last_obs), (''actions'', last_acts),
                 (''next_observations'', observations), (''rewards'', rewards),
                 (''resets'', resets), (''terminations'', terminations),
                 (''log_probs'', last_lps)]]
               @ (case observation_normalizer (model w) of
                    Some n \<Rightarrow> [RecordCall ObservationNormalizer last_obs] | None \<Rightarrow> [])
               @ (case return_normalizer (model w) of
                    Some n \<Rightarrow> [RecordCall ReturnNormalizer rewards] | None \<Rightarrow> [])
               @ [ReadyCall]
               @ (if replay_ready ops r1
                  then [GetFullCall [''observations'', ''next_observations''],
                        CriticCall obs_full, CriticCall next_full,
                        ComputeReturnsCall vs next_vs,
                        GetFullCall [''observations'', ''actions'', ''advantages'',
                                     ''log_probs''],
                        ActorUpdaterCall segment, GetCall [''observations'', ''returns'']]
                       @ map CriticUpdaterCall batches
                       @ (case observation_normalizer (model w) of
                            Some n \<Rightarrow> [UpdateCall ObservationNormalizer] | None \<Rightarrow> [])
                       @ (case return_normalizer (model w) of
                            Some n \<Rightarrow> [UpdateCall ReturnNormalizer] | None \<Rightarrow> [])
                  else []))"
    by blast
  then show ?thesis
    by (simp add: filter_critic_updater_calls split: option.split)
qed

theorem normalizers_are_optional_witness:
  "\<exists>w'. A2C_update standin (Tensor [Scalar 5]) (Tensor [Scalar 7]) (Tensor [Scalar 0])
          (Tensor [Scalar 0]) (snd (A2C_step standin (Tensor [Scalar 0]) standin_world))
          = Returned () w' \<and>
        observation_normalizer (model w') = Some ([], 1) \<and>
        return_normalizer (model w') = None \<and>
        filter (\<lambda>e. is_normalizer_call e \<or> is_learning_step e) (calls w') =
          [RecordCall ObservationNormalizer (Tensor [Scalar 0]),
           CriticCall (Tensor [Tensor [Scalar 0]]), CriticCall (Tensor [Tensor [Scalar 5]]),
           ComputeReturnsCall (Tensor [Tensor [Scalar 0]]) (Tensor [Tensor [Scalar 5]]),
           ActorUpdaterCall [(''observations'', Tensor [Tensor [Scalar 0]]),
             (''actions'', Tensor [Tensor [Scalar 0]]),
             (''advantages'', Tensor [Tensor [Tensor [Scalar 5]]]),
             (''log_probs'', Tensor [Tensor [Scalar (- 3)]])],
           CriticUpdaterCall [(''observations'', Tensor [Tensor [Scalar 0]]),
              (''returns'', Tensor [Tensor [Tensor [Scalar 0]]])],
           CriticUpdaterCall [(''observations'', Tensor [Tensor [Scalar 0]]),
              (''returns'', Tensor [Tensor [Tensor [Scalar 0]]])],
           UpdateCall ObservationNormalizer]"
  using normalizers_are_optional
          [OF standin_learning_pass(1-4) refl standin_learning_pass(5)
              standin_learning_pass(9) [symmetric] standin_learning_pass(9) [symmetric]
              standin_learning_pass(6,7)]
  by (simp add: standin_first_step standin_learning_pass(8,10,11,12,13))

text \<open>
  Claim C7. A newly constructed agent has no cached observations, and update on an agent
  without them raises at once: nothing is stored and nothing else changes.
\<close>

theorem update_before_step_raises:
  "last_observations (A2C_init model_arg replay_arg actor_updater_arg critic_updater_arg) = None
   \<and> (last_observations w = None \<longrightarrow>
        A2C_update ops observations rewards resets terminations w = Raised AttributeError w)"
  by (simp add: A2C_init_def A2C_update_def)

theorem update_before_step_raises_witness:
  "last_observations standin_world = None \<and>
   A2C_update standin (Tensor [Scalar 5]) (Tensor [Scalar 7]) (Tensor [Scalar 0])
     (Tensor [Scalar 0]) standin_world = Raised AttributeError standin_world"
  using update_before_step_raises [of None None None None standin_world standin
      "Tensor [Scalar 5]" "Tensor [Scalar 7]" "Tensor [Scalar 0]" "Tensor [Scalar 0]"]
  by (simp add: standin_world_def)

text \<open>
  Claim C8. test_step returns an action sampled from the actor's distribution for the
  given observations. It calls the actor and \<open>sample\<close> only, and it changes nothing but
  the random generator: the cached values, the replay, the model with its normalizers
  and the updaters are as before.
\<close>

theorem test_step_only_samples:
  "A2C_test_step ops observations w =
     (fst (sample (model_actor ops (model w) observations) (generator w)),
      w\<lparr>generator := snd (sample (model_actor ops (model w) observations) (generator w)),
        calls := calls w @ [ActorCall observations, SampleCall]\<rparr>)"
  by (simp add: A2C_test_step_def A2C__test_step_def Let_def split_def)

theorem test_step_only_samples_witness:
  "A2C_test_step standin (Tensor [Scalar 0]) standin_world =
     (Tensor [Scalar 0],
      standin_world\<lparr>generator := 1, calls := [ActorCall (Tensor [Scalar 0]), SampleCall]\<rparr>)"
  using test_step_only_samples [of standin "Tensor [Scalar 0]" standin_world]
  by (simp add: standin_simps)

text \<open>
  Claim C9. Constructed with no arguments, the agent's replay is a Segment of size 4096
  with 80 batch iterations, no batch size, discount factor 0.98 and trace decay 0.97;
  the actor updater's optimizer has learning rate 3e-4, the critic updater's 1e-3.
\<close>

theorem defaults_of_the_constructor:
  "replay (A2C_init None None None None) =
     \<lparr>segment_size = 4096, batch_iterations = 80, batch_size = None,
      discount_factor = 0.98, trace_decay = 0.97\<rparr>
   \<and> lr (optimizer (actor_updater (A2C_init None None None None))) = 0.0003
   \<and> lr (optimizer (critic_updater (A2C_init None None None None))) = 0.001
   \<and> actor_updater (A2C_init None None None None) = StochasticPolicyGradient (Adam 0.0003)
   \<and> critic_updater (A2C_init None None None None) = VRegression (Adam 0.001)"
  by (simp add: A2C_init_def default_replay_def default_actor_updater_def
        default_critic_updater_def)



end
